theory Spec2Isabelle
  imports Main "HOL-Library.Word"
begin

section \<open>Data model of tlser.go\<close>

text \<open>
  Go strings and byte slices are both sequences of bytes, and an Isabelle \<open>char\<close> is a
  byte, so both are \<open>string\<close>; the conversion \<open>string(bytes)\<close> is the identity.
  A \<open>time.Duration\<close> is a 64-bit count of nanoseconds.
\<close>

type_synonym bytes = string
type_synonym duration = "64 word"

text \<open>
  The package-level flag variables are pointers (\<open>flag.String\<close> returns \<open>*string\<close>,
  \<open>flag.Int\<close> returns \<open>*int\<close>). \<open>flagvar\<close> names these pointers; the record \<open>flags\<close>
  holds the values they point to once \<open>flag.Parse\<close> has run.
\<close>

datatype flagvar = Cacrt | Cakey | Subject | Expire | Dns | Ip | K8sName | K8sNs | Interval

record flags =
  cacrt :: string
  cakey :: string
  subject :: string
  expire :: int
  dns :: string
  ip :: string
  k8sName :: string
  k8sNs :: string
  label :: "(string \<times> string) list"
  interval :: string

text \<open>
  Errors are values. \<open>External\<close> is an error made outside this file (the operating
  system, a library, the cluster); \<open>Errorf\<close> is \<open>fmt.Errorf\<close> with its format string
  and its operands, kept as they are passed.
\<close>

datatype error = External string | Errorf string "fmtarg list"
and fmtarg =
    ArgString string
  | ArgBytes bytes
  | ArgFlagPtr flagvar
  | ArgDuration duration
  | ArgError error

text \<open>\<open>pem.Block\<close>, the parsed CA pair, an RSA key, the cluster configuration.\<close>

record pemBlock =
  Type :: string
  Headers :: "(string \<times> string) list"
  Bytes :: bytes

datatype certificate = Certificate bytes bytes
datatype rsaKey = RsaKey nat bytes
datatype restConfig = RestConfig string

record ident =
  name :: string
  namespace :: string

text \<open>\<open>secret\<close> is the cluster's Secret object: its metadata and its named blobs.\<close>

record secret =
  Name :: string
  Namespace :: string
  Labels :: "(string \<times> string) list"
  Data :: "(string \<times> bytes) list"

text \<open>
  What the program does to the outside, in order: log lines, standard output, and each
  call that leaves \<open>main\<close> or reaches the store.
\<close>

datatype event =
    EvLogSetFlags nat
  | EvLog string "fmtarg list"
  | EvReadCa string string
  | EvGenerateKey nat
  | EvGenerateSignedCert string "string list" "string list" int
  | EvStdout "string list"
  | EvGetConfig
  | EvNewForConfig
  | EvReadFile string
  | EvSync ident
  | EvSleep duration
  | EvSecretsGet string string
  | EvSecretsUpdate string secret
  | EvSecretsCreate string secret

text \<open>
  The cluster client: \<open>clientset.CoreV1().Secrets(ns)\<close> and its three operations, each
  acting on the state \<open>'w\<close> of the world. \<open>Update\<close> and \<open>Create\<close> return the stored
  object and an error.
\<close>

record 'w clientset =
  secretsGet :: "string \<Rightarrow> string \<Rightarrow> 'w \<Rightarrow> (secret option \<times> error option)"
  secretsUpdate :: "string \<Rightarrow> secret \<Rightarrow> 'w \<Rightarrow> (secret option \<times> error option) \<times> 'w"
  secretsCreate :: "string \<Rightarrow> secret \<Rightarrow> 'w \<Rightarrow> (secret option \<times> error option) \<times> 'w"

record 'w k8sAdapter =
  clientset :: "'w clientset"

text \<open>
  The \<open>syncer\<close> built by \<open>main\<close>. Its fields carry the prefix \<open>sy_\<close> here, since
  \<open>subject\<close>, \<open>ip\<close>, \<open>dns\<close> are also flags and \<open>id\<close> is the identity function.
\<close>

record 'w syncer =
  sy_secrets :: "'w k8sAdapter"
  sy_id :: ident
  sy_subject :: string
  sy_ip :: "string list"
  sy_dns :: "string list"
  sy_daysValid :: int
  sy_labels :: "(string \<times> string) list"
  sy_getSigner :: "'w \<Rightarrow> error + certificate"

text \<open>
  Everything \<open>tlser.go\<close> calls and does not define: the standard library, the cluster
  client library, and the functions of this package that live in its other files
  (\<open>parseCertPair\<close>, \<open>generateSignedCert\<close>, \<open>syncer.sync\<close>). They are parameters.
  \<open>pemDecode\<close> is \<open>pem.Decode\<close>: the first PEM block of the input and the rest, or
  \<open>None\<close> for Go's nil block when the input holds no PEM block.
\<close>

record 'w env =
  readFile :: "'w \<Rightarrow> string \<Rightarrow> error + bytes"
  pemDecode :: "bytes \<Rightarrow> (pemBlock \<times> bytes) option"
  parseCertPair :: "bytes \<Rightarrow> bytes \<Rightarrow> error + certificate"
  parseDuration :: "string \<Rightarrow> error + duration"
  rsaGenerateKey :: "nat \<Rightarrow> 'w \<Rightarrow> (error + rsaKey) \<times> 'w"
  generateSignedCert ::
    "string \<Rightarrow> string list \<Rightarrow> string list \<Rightarrow> int \<Rightarrow> rsaKey \<Rightarrow> certificate \<Rightarrow> 'w
      \<Rightarrow> (error + string \<times> string) \<times> 'w"
  getConfig :: "'w \<Rightarrow> error + restConfig"
  newForConfig :: "restConfig \<Rightarrow> error + 'w clientset"
  sync :: "'w syncer \<Rightarrow> 'w \<Rightarrow> error option \<times> 'w"
  sleep :: "duration \<Rightarrow> 'w \<Rightarrow> 'w"

section \<open>readPem and readCa\<close>

text \<open>
  \<open>readPem\<close>, lines 146 to 158. In its first error the operand of \<open>%v\<close> is the
  identifier \<open>cacrt\<close>, which inside \<open>readPem\<close> is the package-level flag pointer
  (the parameter is called \<open>file\<close>).
\<close>

definition readPem :: "'w env \<Rightarrow> 'w \<Rightarrow> string \<Rightarrow> error + bytes" where
  "readPem e w file =
     (case readFile e w file of
        Inl err \<Rightarrow> Inl (Errorf ''unable to read %v: %w'' [ArgFlagPtr Cacrt, ArgError err])
      | Inr bs \<Rightarrow>
          (case pemDecode e bs of
             None \<Rightarrow> Inl (Errorf ''unable to decode: %v'' [ArgBytes bs])
           | Some (decoded, rest) \<Rightarrow> Inr (Bytes decoded)))"

text \<open>\<open>readCa\<close>, lines 160 to 172.\<close>

definition readCa :: "'w env \<Rightarrow> 'w \<Rightarrow> string \<Rightarrow> string \<Rightarrow> error + certificate" where
  "readCa e w cacrt' cakey' =
     (case readPem e w cacrt' of
        Inl err \<Rightarrow> Inl err
      | Inr certBytes \<Rightarrow>
          (case readPem e w cakey' of
             Inl err \<Rightarrow> Inl err
           | Inr keyBytes \<Rightarrow> parseCertPair e certBytes keyBytes))"

section \<open>The store adapter\<close>

text \<open>
  The state threaded through the store calls: the events so far and the world.
  \<open>getSecret\<close>, lines 178 to 180, and \<open>setSecret\<close>, lines 182 to 190.
\<close>

type_synonym 'w st = "event list \<times> 'w"

definition getSecret ::
  "'w k8sAdapter \<Rightarrow> ident \<Rightarrow> 'w st \<Rightarrow> (secret option \<times> error option) \<times> 'w st" where
  "getSecret a i s =
     (case s of (tr, w) \<Rightarrow>
        (secretsGet (clientset a) (namespace i) (name i) w,
         (tr @ [EvSecretsGet (namespace i) (name i)], w)))"

definition setSecret ::
  "'w k8sAdapter \<Rightarrow> secret \<Rightarrow> bool \<Rightarrow> 'w st \<Rightarrow> error option \<times> 'w st" where
  "setSecret a sec update s =
     (case s of (tr, w) \<Rightarrow>
        (let ns = Namespace sec in
         if update then
           (case secretsUpdate (clientset a) ns sec w of
              ((_, err), w') \<Rightarrow> (err, (tr @ [EvSecretsUpdate ns sec], w')))
         else
           (case secretsCreate (clientset a) ns sec w of
              ((_, err), w') \<Rightarrow> (err, (tr @ [EvSecretsCreate ns sec], w')))))"

section \<open>The alternative-name options\<close>

text \<open>
  \<open>strings.Split(s, ",")\<close>: the substrings between the separators, one more than there
  are separators; a string without the separator comes back alone.
\<close>

fun Split :: "string \<Rightarrow> char \<Rightarrow> string list" where
  "Split [] sep = [[]]"
| "Split (c # cs) sep =
     (if c = sep then [] # Split cs sep
      else (case Split cs sep of
              [] \<Rightarrow> [[c]]
            | piece # pieces \<Rightarrow> (c # piece) # pieces))"

text \<open>
  Lines 56 to 62: the list stays nil unless the option is non-empty.
\<close>

definition sanStrings :: "string \<Rightarrow> string list" where
  "sanStrings s = (if length s > 0 then Split s (CHR '','') else [])"

text \<open>\<open>strings.Join\<close> with a one-byte separator, to say what \<open>Split\<close> undoes.\<close>

fun Join :: "string list \<Rightarrow> char \<Rightarrow> string" where
  "Join [] sep = []"
| "Join [x] sep = x"
| "Join (x # y # ys) sep = x @ sep # Join (y # ys) sep"

section \<open>main\<close>

text \<open>
  A run of \<open>main\<close> ends by returning, or by \<open>os.Exit\<close> with a status; the polling
  loop need not end, so it runs on fuel, one unit per iteration, and a run that has
  used its fuel is still \<open>Running\<close>. A run is its end, the events in order, and the
  world it leaves.
\<close>

datatype outcome = Returned | Exited nat | Running

type_synonym 'w run = "outcome \<times> event list \<times> 'w"

definition namespaceFile :: string where
  "namespaceFile = ''/var/run/secrets/kubernetes.io/serviceaccount/namespace''"

definition LstdFlags :: nat where
  "LstdFlags = 3"

text \<open>\<open>log.Fatalf\<close> prints the line and calls \<open>os.Exit(1)\<close>.\<close>

definition Fatalf :: "string \<Rightarrow> fmtarg list \<Rightarrow> event list \<Rightarrow> 'w \<Rightarrow> 'w run" where
  "Fatalf fmt args tr w = (Exited 1, tr @ [EvLog fmt args], w)"

text \<open>Lines 64 to 91: no secret name, the certificate goes to standard output.\<close>

definition generateOnStdout ::
  "'w env \<Rightarrow> flags \<Rightarrow> string list \<Rightarrow> string list \<Rightarrow> event list \<Rightarrow> 'w \<Rightarrow> 'w run" where
  "generateOnStdout e f ipStrings dnsStrings tr w =
     (let tr1 = tr @ [EvLog ''No secret name provided, generating cert on stdout'' [],
                      EvReadCa (cacrt f) (cakey f)]
      in case readCa e w (cacrt f) (cakey f) of
           Inl err \<Rightarrow> Fatalf ''Failed to read CA files: %v'' [ArgError err] tr1 w
         | Inr signer \<Rightarrow>
             (let tr2 = tr1 @ [EvGenerateKey 2048]
              in case rsaGenerateKey e 2048 w of
                   (Inl err, w1) \<Rightarrow>
                     Fatalf ''Unable to generate private key: %v'' [ArgError err] tr2 w1
                 | (Inr rsaKey, w1) \<Rightarrow>
                     (let tr3 = tr2 @ [EvGenerateSignedCert (subject f) ipStrings dnsStrings
                                         (expire f)]
                      in case generateSignedCert e (subject f) ipStrings dnsStrings (expire f)
                                rsaKey signer w1 of
                           (Inl err, w2) \<Rightarrow>
                             Fatalf ''Unable to generate certificate: %v'' [ArgError err] tr3 w2
                         | (Inr (cert, key), w2) \<Rightarrow>
                             (Returned, tr3 @ [EvStdout [cert, key]], w2))))"

text \<open>
  Lines 104 to 114: the namespace of the secret. The result is the events of these
  lines and the namespace.
\<close>

definition resolveNamespace :: "'w env \<Rightarrow> 'w \<Rightarrow> string \<Rightarrow> event list \<times> string" where
  "resolveNamespace e w ns0 =
     (case (if ns0 = [] then
              (case readFile e w namespaceFile of
                 Inl err \<Rightarrow>
                   ([EvReadFile namespaceFile,
                     EvLog (''Unable to read %s, using namespace '' @ [CHR 0x27] @ ''default''
                            @ [CHR 0x27]) [ArgString namespaceFile]],
                    ns0)
               | Inr bs \<Rightarrow> ([EvReadFile namespaceFile], bs))
            else ([], ns0)) of
        (evs, ns1) \<Rightarrow> (evs, if ns1 = [] then ''default'' else ns1))"

text \<open>Lines 117 to 126: the syncer.\<close>

definition newSyncer ::
  "'w env \<Rightarrow> flags \<Rightarrow> 'w clientset \<Rightarrow> string \<Rightarrow> string list \<Rightarrow> string list \<Rightarrow> 'w syncer" where
  "newSyncer e f cs ns ipStrings dnsStrings =
     \<lparr>sy_secrets = \<lparr>clientset = cs\<rparr>,
      sy_id = \<lparr>name = k8sName f, namespace = ns\<rparr>,
      sy_subject = subject f,
      sy_ip = ipStrings,
      sy_dns = dnsStrings,
      sy_daysValid = expire f,
      sy_labels = label f,
      sy_getSigner = (\<lambda>w'. readCa e w' (cacrt f) (cakey f))\<rparr>"

text \<open>Lines 138 to 143: the polling loop.\<close>

fun pollLoop ::
  "nat \<Rightarrow> 'w env \<Rightarrow> 'w syncer \<Rightarrow> duration \<Rightarrow> event list \<Rightarrow> 'w \<Rightarrow> 'w run" where
  "pollLoop 0 e sy syncInterval tr w = (Running, tr, w)"
| "pollLoop (Suc fuel) e sy syncInterval tr w =
     (case sync e sy w of
        (Some err, w1) \<Rightarrow>
          Fatalf ''Unable to sync certs: %v'' [ArgError err] (tr @ [EvSync (sy_id sy)]) w1
      | (None, w1) \<Rightarrow>
          pollLoop fuel e sy syncInterval
            (tr @ [EvSync (sy_id sy), EvSleep syncInterval]) (sleep e syncInterval w1))"

text \<open>Lines 93 to 144: a secret name is given.\<close>

definition syncToSecret ::
  "'w env \<Rightarrow> flags \<Rightarrow> duration \<Rightarrow> string list \<Rightarrow> string list \<Rightarrow> nat \<Rightarrow> event list \<Rightarrow> 'w
    \<Rightarrow> 'w run" where
  "syncToSecret e f syncInterval ipStrings dnsStrings fuel tr w =
     (let tr1 = tr @ [EvGetConfig]
      in case getConfig e w of
           Inl err \<Rightarrow> Fatalf ''Unable to get Kubernetes config: %v'' [ArgError err] tr1 w
         | Inr cfg \<Rightarrow>
             (let tr2 = tr1 @ [EvNewForConfig]
              in case newForConfig e cfg of
                   Inl err \<Rightarrow>
                     Fatalf ''Unable to initialize Kubernetes client: %v'' [ArgError err] tr2 w
                 | Inr cs \<Rightarrow>
                     (case resolveNamespace e w (k8sNs f) of
                        (evs, ns) \<Rightarrow>
                          (let tr3 = tr2 @ evs @
                                 [EvLog ''Syncing certificate for %s to secret %s in namespace %s''
                                    [ArgString (subject f), ArgString (k8sName f), ArgString ns]];
                               sy = newSyncer e f cs ns ipStrings dnsStrings
                           in if syncInterval = 0 then
                                (case sync e sy w of
                                   (Some err, w1) \<Rightarrow>
                                     Fatalf ''Unable to sync certs: %v'' [ArgError err]
                                       (tr3 @ [EvSync (sy_id sy)]) w1
                                 | (None, w1) \<Rightarrow> (Returned, tr3 @ [EvSync (sy_id sy)], w1))
                              else
                                pollLoop fuel e sy syncInterval
                                  (tr3 @ [EvLog ''Monitoring every %v'' [ArgDuration syncInterval],
                                          EvLogSetFlags LstdFlags])
                                  w))))"

text \<open>
  \<open>main\<close>, lines 38 to 144, on the flag values \<open>flag.Parse\<close> has stored.
  \<open>syncInterval\<close> keeps its zero value when the option is empty.
\<close>

definition main :: "'w env \<Rightarrow> flags \<Rightarrow> nat \<Rightarrow> 'w \<Rightarrow> 'w run" where
  "main e f fuel w =
     (let tr0 = [EvLogSetFlags 0]
      in if length (subject f) = 0 then
           Fatalf ''Missing required -subject parameter'' [] tr0 w
         else
           (case (if length (interval f) \<noteq> 0 then parseDuration e (interval f) else Inr 0) of
              Inl err \<Rightarrow>
                Fatalf ''Parameter -interval was not a valid duration: %v'' [ArgError err] tr0 w
            | Inr syncInterval \<Rightarrow>
                (let ipStrings = sanStrings (ip f);
                     dnsStrings = sanStrings (dns f)
                 in if length (k8sName f) = 0 then
                      generateOnStdout e f ipStrings dnsStrings tr0 w
                    else
                      syncToSecret e f syncInterval ipStrings dnsStrings fuel tr0 w)))"

text \<open>
  For stating what the loop does: the world in which cycle \<open>k\<close> starts when the
  cycles before it succeeded, the number of cycles in a list of events, and the events
  that build the store client or reach the store.
\<close>

fun cycleStart :: "'w env \<Rightarrow> 'w syncer \<Rightarrow> duration \<Rightarrow> 'w \<Rightarrow> nat \<Rightarrow> 'w" where
  "cycleStart e sy d w 0 = w"
| "cycleStart e sy d w (Suc k) = sleep e d (snd (sync e sy (cycleStart e sy d w k)))"

fun isSync :: "event \<Rightarrow> bool" where
  "isSync (EvSync i) = True"
| "isSync ev = False"

definition cyclesRun :: "event list \<Rightarrow> nat" where
  "cyclesRun tr = length (filter isSync tr)"


text \<open>
  The events of a run with a secret name up to the first cycle, and the syncer it
  builds, given the client that \<open>kubernetes.NewForConfig\<close> returned.
\<close>

definition startupEvents :: "'w env \<Rightarrow> flags \<Rightarrow> 'w \<Rightarrow> event list" where
  "startupEvents e f w =
     [EvLogSetFlags 0, EvGetConfig, EvNewForConfig] @ fst (resolveNamespace e w (k8sNs f)) @
     [EvLog ''Syncing certificate for %s to secret %s in namespace %s''
        [ArgString (subject f), ArgString (k8sName f),
         ArgString (snd (resolveNamespace e w (k8sNs f)))]]"

definition theSyncer :: "'w env \<Rightarrow> flags \<Rightarrow> 'w clientset \<Rightarrow> 'w \<Rightarrow> 'w syncer" where
  "theSyncer e f cs w =
     newSyncer e f cs (snd (resolveNamespace e w (k8sNs f))) (sanStrings (ip f))
       (sanStrings (dns f))"

definition theId :: "'w env \<Rightarrow> flags \<Rightarrow> 'w \<Rightarrow> ident" where
  "theId e f w = \<lparr>name = k8sName f, namespace = snd (resolveNamespace e w (k8sNs f))\<rparr>"

text \<open>
  The marks of the polling loop in a run: it is still running, or the log flags were
  switched to timestamps (line 137), or it slept.
\<close>

definition pollingSign :: "'w run \<Rightarrow> bool" where
  "pollingSign r \<longleftrightarrow>
     fst r = Running
     \<or> EvLogSetFlags LstdFlags \<in> set (fst (snd r))
     \<or> (\<exists>d. EvSleep d \<in> set (fst (snd r)))"

section \<open>Concrete collaborators for the examples\<close>

text \<open>
  A small world: a file system as an association list and a counter that the store
  calls and the cycles advance.
  \<open>toyDecode\<close> accepts contents that start with a dash and returns what follows as the
  block; anything else holds no PEM block.
\<close>

record world =
  files :: "(string \<times> bytes) list"
  cycles :: nat

definition toyReadFile :: "world \<Rightarrow> string \<Rightarrow> error + bytes" where
  "toyReadFile w p =
     (case map_of (files w) p of
        None \<Rightarrow> Inl (External (''open '' @ p @ '': no such file or directory''))
      | Some bs \<Rightarrow> Inr bs)"

definition toyDecode :: "bytes \<Rightarrow> (pemBlock \<times> bytes) option" where
  "toyDecode bs =
     (case bs of
        [] \<Rightarrow> None
      | c # cs \<Rightarrow>
          (if c = CHR ''-'' then Some (\<lparr>Type = ''CERTIFICATE'', Headers = [], Bytes = cs\<rparr>, [])
           else None))"

definition toyClientset :: "world clientset" where
  "toyClientset =
     \<lparr>secretsGet = (\<lambda>ns n w. (None, Some (External ''not found''))),
      secretsUpdate = (\<lambda>ns s w. ((Some s, Some (External ''conflict'')), w\<lparr>cycles := cycles w + 1\<rparr>)),
      secretsCreate = (\<lambda>ns s w. ((Some s, None), w\<lparr>cycles := cycles w + 10\<rparr>))\<rparr>"

definition toySecret :: secret where
  "toySecret = \<lparr>Name = ''web'', Namespace = ''prod'', Labels = [], Data = [(''tls.crt'', ''c'')]\<rparr>"

definition toyEnv :: "world env" where
  "toyEnv =
     \<lparr>readFile = toyReadFile,
      pemDecode = toyDecode,
      parseCertPair = (\<lambda>c k. if c = [] then Inl (External ''empty certificate'')
                              else Inr (Certificate c k)),
      parseDuration = (\<lambda>s. if s = ''1h'' then Inr 3600000000000
                            else if s = ''0s'' then Inr 0
                            else Inl (External ''invalid duration'')),
      rsaGenerateKey = (\<lambda>bits w. (Inr (RsaKey bits ''k''), w)),
      generateSignedCert = (\<lambda>cn ips names days k signer w. (Inr (''CERT '' @ cn, ''KEY''), w)),
      getConfig = (\<lambda>w. Inr (RestConfig ''in-cluster'')),
      newForConfig = (\<lambda>c. Inr toyClientset),
      sync = (\<lambda>sy w. (if 2 \<le> cycles w then Some (External ''store down'') else None,
                       w\<lparr>cycles := cycles w + 1\<rparr>)),
      sleep = (\<lambda>d w. w)\<rparr>"

definition toyWorld :: world where
  "toyWorld = \<lparr>files = [(''./ca.pem'', ''-ca''), (''./ca-key.pem'', ''-key''),
                         (''./junk.pem'', ''junk''), (''./more.pem'', ''junk'')],
               cycles = 0\<rparr>"

definition toyFlags :: flags where
  "toyFlags =
     \<lparr>cacrt = ''./ca.pem'', cakey = ''./ca-key.pem'', subject = ''svc.example.com'',
      expire = 60, dns = ''a.example.com,b.example.com'', ip = [],
      k8sName = [], k8sNs = [], label = [], interval = []\<rparr>"

definition syncFlags :: flags where
  "syncFlags = toyFlags\<lparr>k8sName := ''web''\<rparr>"

definition pollFlags :: flags where
  "pollFlags = toyFlags\<lparr>k8sName := ''web'', interval := ''1h''\<rparr>"

definition clusterWorld :: world where
  "clusterWorld = \<lparr>files = [(namespaceFile, ''team-a'')], cycles = 0\<rparr>"

section \<open>Properties of Split\<close>

lemma Split_not_Nil: "Split s sep \<noteq> []"
  by (induction s) (auto split: list.splits)

lemma Join_Cons_Split:
  "Join ((c # piece) # pieces) sep = c # Join (piece # pieces) sep"
  by (cases pieces) simp_all

lemma Join_Nil_Cons: "ps \<noteq> [] \<Longrightarrow> Join ([] # ps) sep = sep # Join ps sep"
  by (cases ps) simp_all

lemma Join_Split: "Join (Split s sep) sep = s"
proof (induction s)
  case Nil
  show ?case by simp
next
  case (Cons c cs)
  show ?case
  proof (cases "c = sep")
    case True
    then show ?thesis
      using Cons.IH by (simp add: Join_Nil_Cons Split_not_Nil)
  next
    case False
    obtain piece pieces where sp: "Split cs sep = piece # pieces"
      using Split_not_Nil [of cs sep] by (cases "Split cs sep") auto
    with False Cons.IH show ?thesis
      by (simp add: Join_Cons_Split)
  qed
qed

lemma Split_no_sep: "x \<in> set (Split s sep) \<Longrightarrow> sep \<notin> set x"
proof (induction s arbitrary: x)
  case Nil
  then show ?case by simp
next
  case (Cons c cs)
  obtain piece pieces where sp: "Split cs sep = piece # pieces"
    using Split_not_Nil [of cs sep] by (cases "Split cs sep") auto
  have tl: "\<And>y. y \<in> set (piece # pieces) \<Longrightarrow> sep \<notin> set y"
    using Cons.IH sp by simp
  show ?case
  proof (cases "c = sep")
    case True
    with Cons.prems sp tl show ?thesis by auto
  next
    case False
    with Cons.prems sp have "x = c # piece \<or> x \<in> set pieces" by simp
    with False tl show ?thesis by auto
  qed
qed

lemma length_Split: "length (Split s sep) = Suc (count_list s sep)"
proof (induction s)
  case Nil
  show ?case by simp
next
  case (Cons c cs)
  obtain piece pieces where sp: "Split cs sep = piece # pieces"
    using Split_not_Nil [of cs sep] by (cases "Split cs sep") auto
  with Cons.IH show ?case by simp
qed

section \<open>The polling loop and the two modes of main\<close>

text \<open>
  With a subject, a secret name and a client, \<open>main\<close> is one cycle when the interval is
  zero and the loop otherwise.
\<close>

lemma sy_id_theSyncer: "sy_id (theSyncer e f cs w) = theId e f w"
  by (simp add: theSyncer_def theId_def newSyncer_def)

lemma main_with_target:
  assumes "subject f \<noteq> []" and "k8sName f \<noteq> []"
    and "getConfig e w = Inr cfg" and "newForConfig e cfg = Inr cs"
    and "(if interval f = [] then Inr 0 else parseDuration e (interval f)) = Inr d"
  shows "main e f fuel w =
    (if d = 0 then
       (case sync e (theSyncer e f cs w) w of
          (Some err, w1) \<Rightarrow>
            (Exited 1,
             startupEvents e f w @
               [EvSync (theId e f w), EvLog ''Unable to sync certs: %v'' [ArgError err]],
             w1)
        | (None, w1) \<Rightarrow> (Returned, startupEvents e f w @ [EvSync (theId e f w)], w1))
     else
       pollLoop fuel e (theSyncer e f cs w) d
         (startupEvents e f w @
            [EvLog ''Monitoring every %v'' [ArgDuration d], EvLogSetFlags LstdFlags])
         w)"
proof -
  obtain evs ns where rn: "resolveNamespace e w (k8sNs f) = (evs, ns)"
    by (cases "resolveNamespace e w (k8sNs f)")
  have sy: "newSyncer e f cs ns (sanStrings (ip f)) (sanStrings (dns f)) = theSyncer e f cs w"
    by (simp add: theSyncer_def rn)
  have st: "[EvLogSetFlags 0, EvGetConfig, EvNewForConfig] @ evs @
      [EvLog ''Syncing certificate for %s to secret %s in namespace %s''
         [ArgString (subject f), ArgString (k8sName f), ArgString ns]] = startupEvents e f w"
    by (simp add: startupEvents_def rn)
  have body: "syncToSecret e f d (sanStrings (ip f)) (sanStrings (dns f)) fuel [EvLogSetFlags 0] w =
    (if d = 0 then
       (case sync e (theSyncer e f cs w) w of
          (Some err, w1) \<Rightarrow>
            (Exited 1,
             startupEvents e f w @
               [EvSync (theId e f w), EvLog ''Unable to sync certs: %v'' [ArgError err]],
             w1)
        | (None, w1) \<Rightarrow> (Returned, startupEvents e f w @ [EvSync (theId e f w)], w1))
     else
       pollLoop fuel e (theSyncer e f cs w) d
         (startupEvents e f w @
            [EvLog ''Monitoring every %v'' [ArgDuration d], EvLogSetFlags LstdFlags])
         w)"
    using assms(3,4) st
    by (simp add: syncToSecret_def rn sy sy_id_theSyncer Fatalf_def Let_def
          split: prod.splits option.splits)
  show ?thesis
    using assms(1,2,5) body
    by (simp add: main_def Let_def split: if_splits)
qed

text \<open>
  While the cycles succeed, each iteration adds the cycle and the sleep to the events
  and hands the slept world to the next one.
\<close>

lemma rounds_Suc:
  "concat (replicate (Suc n) xs) = concat (replicate n xs) @ xs"
  by (induction n) simp_all

lemma pollLoop_step:
  "fst (sync e sy w) = None \<Longrightarrow>
   pollLoop (Suc m) e sy d tr w =
   pollLoop m e sy d (tr @ [EvSync (sy_id sy), EvSleep d]) (sleep e d (snd (sync e sy w)))"
  by (cases "sync e sy w") simp

lemma pollLoop_prefix:
  "(\<forall>j<n. fst (sync e sy (cycleStart e sy d w j)) = None) \<Longrightarrow>
   pollLoop (n + m) e sy d tr w =
   pollLoop m e sy d (tr @ concat (replicate n [EvSync (sy_id sy), EvSleep d]))
     (cycleStart e sy d w n)"
proof (induction n arbitrary: m)
  case 0
  show ?case by simp
next
  case (Suc n)
  have ok: "fst (sync e sy (cycleStart e sy d w n)) = None"
    using Suc.prems by simp
  have before: "\<forall>j<n. fst (sync e sy (cycleStart e sy d w j)) = None"
    using Suc.prems by simp
  have "pollLoop (Suc n + m) e sy d tr w = pollLoop (n + Suc m) e sy d tr w"
    by simp
  also have "\<dots> = pollLoop (Suc m) e sy d
      (tr @ concat (replicate n [EvSync (sy_id sy), EvSleep d])) (cycleStart e sy d w n)"
    by (rule Suc.IH [OF before])
  also have "\<dots> = pollLoop m e sy d
      ((tr @ concat (replicate n [EvSync (sy_id sy), EvSleep d]))
         @ [EvSync (sy_id sy), EvSleep d])
      (sleep e d (snd (sync e sy (cycleStart e sy d w n))))"
    by (rule pollLoop_step [OF ok])
  also have "\<dots> = pollLoop m e sy d
      (tr @ concat (replicate (Suc n) [EvSync (sy_id sy), EvSleep d]))
      (cycleStart e sy d w (Suc n))"
    by (simp only: rounds_Suc append_assoc cycleStart.simps)
  finally show ?case .
qed

lemma pollLoop_fails:
  assumes ok: "\<forall>j<k. fst (sync e sy (cycleStart e sy d w j)) = None"
    and bad: "fst (sync e sy (cycleStart e sy d w k)) = Some err"
    and fuel: "k < fuel"
  shows "pollLoop fuel e sy d tr w =
           (Exited 1,
            tr @ concat (replicate k [EvSync (sy_id sy), EvSleep d])
               @ [EvSync (sy_id sy), EvLog ''Unable to sync certs: %v'' [ArgError err]],
            snd (sync e sy (cycleStart e sy d w k)))"
proof -
  obtain m where m: "fuel = k + Suc m"
    using fuel less_iff_Suc_add [of k fuel] by auto
  show ?thesis
    using pollLoop_prefix [OF ok, of "Suc m" tr] bad m
    by (cases "sync e sy (cycleStart e sy d w k)") (simp add: Fatalf_def)
qed

text \<open>Counting cycles.\<close>

lemma cyclesRun_append: "cyclesRun (xs @ ys) = cyclesRun xs + cyclesRun ys"
  by (simp add: cyclesRun_def)

lemma cyclesRun_Nil: "cyclesRun [] = 0"
  by (simp add: cyclesRun_def)

lemma cyclesRun_Cons: "cyclesRun (x # xs) = (if isSync x then 1 else 0) + cyclesRun xs"
  by (simp add: cyclesRun_def)

lemma cyclesRun_rounds:
  "cyclesRun (concat (replicate n [EvSync i, EvSleep d])) = n"
  by (induction n) (simp_all add: cyclesRun_def)

lemma cyclesRun_resolveNamespace: "cyclesRun (fst (resolveNamespace e w ns0)) = 0"
  by (simp add: resolveNamespace_def cyclesRun_def split: sum.splits)

lemma cyclesRun_startupEvents: "cyclesRun (startupEvents e f w) = 0"
  using cyclesRun_resolveNamespace [of e w "k8sNs f"]
  by (simp add: startupEvents_def cyclesRun_def)

text \<open>A run whose interval is zero shows none of the marks of the loop.\<close>

lemma resolveNamespace_quiet:
  "resolveNamespace e w ns0 = (evs, ns) \<Longrightarrow>
   EvLogSetFlags k \<notin> set evs \<and> EvSleep d \<notin> set evs"
  by (auto simp: resolveNamespace_def split: sum.splits if_splits)

lemma generateOnStdout_not_polling:
  "\<not> pollingSign (generateOnStdout e f ips names [EvLogSetFlags 0] w)"
  by (auto simp: pollingSign_def generateOnStdout_def Fatalf_def Let_def LstdFlags_def
      split: sum.splits prod.splits)

lemma syncToSecret_not_polling:
  "\<not> pollingSign (syncToSecret e f 0 ips names fuel [EvLogSetFlags 0] w)"
  by (auto simp: pollingSign_def syncToSecret_def Fatalf_def Let_def LstdFlags_def
      split: sum.splits prod.splits option.splits dest: resolveNamespace_quiet)

lemma main_polling_only:
  assumes "pollingSign (main e f fuel w)"
  shows "interval f \<noteq> [] \<and> (\<exists>d. parseDuration e (interval f) = Inr d \<and> d \<noteq> 0)"
proof (rule ccontr)
  assume neg: "\<not> (interval f \<noteq> [] \<and> (\<exists>d. parseDuration e (interval f) = Inr d \<and> d \<noteq> 0))"
  have zero: "(if length (interval f) \<noteq> 0 then parseDuration e (interval f) else Inr 0) = Inr d
      \<Longrightarrow> d = 0" for d
    using neg by (auto split: if_splits)
  have fatal: "\<not> pollingSign (Fatalf fmt args [EvLogSetFlags 0] w)" for fmt args
    by (simp add: pollingSign_def Fatalf_def LstdFlags_def)
  have "\<not> pollingSign (main e f fuel w)"
    using zero fatal generateOnStdout_not_polling [of e f _ _ w]
      syncToSecret_not_polling [of e f _ _ fuel w]
    by (auto simp: main_def Let_def split: sum.splits)
  with assms show False by blast
qed


section \<open>The example collaborators, evaluated\<close>

lemma toy_getConfig: "getConfig toyEnv w = Inr (RestConfig ''in-cluster'')"
  by (simp add: toyEnv_def)

lemma toy_newForConfig: "newForConfig toyEnv c = Inr toyClientset"
  by (simp add: toyEnv_def)

lemma toy_parseDuration: "parseDuration toyEnv ''1h'' = Inr 3600000000000"
  by (simp add: toyEnv_def)

lemma toy_sync:
  "sync toyEnv sy w =
     (if 2 \<le> cycles w then Some (External ''store down'') else None,
      w\<lparr>cycles := cycles w + 1\<rparr>)"
  by (simp add: toyEnv_def)

lemma toy_cycles: "cycles toyWorld = 0"
  by (simp add: toyWorld_def)

lemma toy_sleep: "sleep toyEnv d w = w"
  by (simp add: toyEnv_def)

lemma toy_cycleStart: "cycleStart toyEnv sy d w k = w\<lparr>cycles := cycles w + k\<rparr>"
  by (induction k) (simp_all add: toy_sync toy_sleep)

lemma toy_resolveNamespace:
  "resolveNamespace toyEnv toyWorld [] =
     ([EvReadFile namespaceFile,
       EvLog (''Unable to read %s, using namespace '' @ [CHR 0x27] @ ''default'' @ [CHR 0x27])
         [ArgString namespaceFile]],
      ''default'')"
  by (simp add: resolveNamespace_def toyEnv_def toyReadFile_def toyWorld_def namespaceFile_def)

lemma toy_startupEvents:
  "k8sNs f = [] \<Longrightarrow>
   startupEvents toyEnv f toyWorld =
     [EvLogSetFlags 0, EvGetConfig, EvNewForConfig, EvReadFile namespaceFile,
      EvLog (''Unable to read %s, using namespace '' @ [CHR 0x27] @ ''default'' @ [CHR 0x27])
        [ArgString namespaceFile],
      EvLog ''Syncing certificate for %s to secret %s in namespace %s''
        [ArgString (subject f), ArgString (k8sName f), ArgString ''default'']]"
  by (simp add: startupEvents_def toy_resolveNamespace)

lemma toy_theId:
  "k8sNs f = [] \<Longrightarrow> theId toyEnv f toyWorld = \<lparr>name = k8sName f, namespace = ''default''\<rparr>"
  by (simp add: theId_def toy_resolveNamespace)


lemma syncFlags_simps:
  "subject syncFlags = ''svc.example.com''" "k8sName syncFlags = ''web''"
  "k8sNs syncFlags = []" "interval syncFlags = []"
  by (simp_all add: syncFlags_def toyFlags_def)

lemma pollFlags_simps:
  "subject pollFlags = ''svc.example.com''" "k8sName pollFlags = ''web''"
  "k8sNs pollFlags = []" "interval pollFlags = ''1h''"
  by (simp_all add: pollFlags_def toyFlags_def)

lemma toy_polling:
  "main toyEnv pollFlags fuel toyWorld =
     pollLoop fuel toyEnv (theSyncer toyEnv pollFlags toyClientset toyWorld) 3600000000000
       (startupEvents toyEnv pollFlags toyWorld @
          [EvLog ''Monitoring every %v'' [ArgDuration 3600000000000], EvLogSetFlags LstdFlags])
       toyWorld"
proof -
  have h1: "subject pollFlags \<noteq> []" and h2: "k8sName pollFlags \<noteq> []"
    by (simp_all add: pollFlags_simps)
  have pd: "(if interval pollFlags = [] then Inr 0
             else parseDuration toyEnv (interval pollFlags)) = Inr 3600000000000"
    by (simp add: pollFlags_simps toy_parseDuration)
  show ?thesis
    using main_with_target [OF h1 h2 toy_getConfig toy_newForConfig pd, of fuel] by simp
qed




lemma rounds_two: "concat (replicate 2 xs) = xs @ xs"
  by (simp add: numeral_2_eq_2)

lemma toy_cycles_ok:
  "\<forall>j<2. fst (sync toyEnv sy (cycleStart toyEnv sy d toyWorld j)) = None"
  by (simp add: toy_sync toy_cycleStart toy_cycles)

section \<open>The claims\<close>



text \<open>
  C2. \<open>setSecret\<close> makes one store call: the update when the flag is true, the create
  when it is false, in the namespace of the secret; the error it returns and the world
  it leaves are those of that call.
\<close>

theorem setSecret_one_call:
  "setSecret a sec update (tr, w) =
     (let r = (if update then secretsUpdate (clientset a) (Namespace sec) sec w
               else secretsCreate (clientset a) (Namespace sec) sec w)
      in (snd (fst r),
          (tr @ [if update then EvSecretsUpdate (Namespace sec) sec
                 else EvSecretsCreate (Namespace sec) sec],
           snd r)))"
  by (simp add: setSecret_def Let_def split: prod.splits)

theorem setSecret_one_call_example:
  "setSecret \<lparr>clientset = toyClientset\<rparr> toySecret True ([], toyWorld) =
     (Some (External ''conflict''), ([EvSecretsUpdate ''prod'' toySecret], toyWorld\<lparr>cycles := 1\<rparr>))
   \<and> setSecret \<lparr>clientset = toyClientset\<rparr> toySecret False ([], toyWorld) =
     (None, ([EvSecretsCreate ''prod'' toySecret], toyWorld\<lparr>cycles := 10\<rparr>))"
proof -
  have ns: "Namespace toySecret = ''prod''" by (simp add: toySecret_def)
  have u: "secretsUpdate toyClientset ns s toyWorld =
      ((Some s, Some (External ''conflict'')), toyWorld\<lparr>cycles := 1\<rparr>)" for ns s
    by (simp add: toyClientset_def toy_cycles)
  have c: "secretsCreate toyClientset ns s toyWorld = ((Some s, None), toyWorld\<lparr>cycles := 10\<rparr>)"
    for ns s
    by (simp add: toyClientset_def toy_cycles)
  show ?thesis
    using setSecret_one_call [of "\<lparr>clientset = toyClientset\<rparr>" toySecret True "[]" toyWorld]
      setSecret_one_call [of "\<lparr>clientset = toyClientset\<rparr>" toySecret False "[]" toyWorld]
    by (simp add: ns u c)
qed

text \<open>
  C3. \<open>readPem\<close> returns an error exactly when the file cannot be read or its contents
  hold no PEM block; when \<open>pem.Decode\<close> finds a block, the result is the bytes of that
  first block.
\<close>

theorem readPem_error_iff:
  "(isl (readPem e w file) \<longleftrightarrow>
      isl (readFile e w file)
      \<or> (\<exists>bs. readFile e w file = Inr bs \<and> pemDecode e bs = None))
   \<and> (\<forall>bs decoded rest.
        readFile e w file = Inr bs \<longrightarrow> pemDecode e bs = Some (decoded, rest) \<longrightarrow>
        readPem e w file = Inr (Bytes decoded))"
  by (auto simp: readPem_def split: sum.splits option.splits)

theorem readPem_error_iff_witness:
  "readFile toyEnv toyWorld ''./ca.pem'' = Inr ''-ca''
   \<and> pemDecode toyEnv ''-ca'' = Some (\<lparr>Type = ''CERTIFICATE'', Headers = [], Bytes = ''ca''\<rparr>, [])
   \<and> readPem toyEnv toyWorld ''./ca.pem'' = Inr ''ca''
   \<and> isl (readFile toyEnv toyWorld ''./absent.pem'')
   \<and> isl (readPem toyEnv toyWorld ''./absent.pem'')
   \<and> readFile toyEnv toyWorld ''./junk.pem'' = Inr ''junk''
   \<and> pemDecode toyEnv ''junk'' = None
   \<and> isl (readPem toyEnv toyWorld ''./junk.pem'')"
proof -
  have r1: "readFile toyEnv toyWorld ''./ca.pem'' = Inr ''-ca''"
    by (simp add: toyEnv_def toyReadFile_def toyWorld_def)
  have d1: "pemDecode toyEnv ''-ca'' =
      Some (\<lparr>Type = ''CERTIFICATE'', Headers = [], Bytes = ''ca''\<rparr>, [])"
    by (simp add: toyEnv_def toyDecode_def)
  have r2: "isl (readFile toyEnv toyWorld ''./absent.pem'')"
    by (simp add: toyEnv_def toyReadFile_def toyWorld_def)
  have r3: "readFile toyEnv toyWorld ''./junk.pem'' = Inr ''junk''"
    by (simp add: toyEnv_def toyReadFile_def toyWorld_def)
  have d3: "pemDecode toyEnv ''junk'' = None"
    by (simp add: toyEnv_def toyDecode_def)
  have a: "readPem toyEnv toyWorld ''./ca.pem'' =
      Inr (Bytes \<lparr>Type = ''CERTIFICATE'', Headers = [], Bytes = ''ca''\<rparr>)"
    using readPem_error_iff [of toyEnv toyWorld "''./ca.pem''"] r1 d1 by blast
  have b: "isl (readPem toyEnv toyWorld ''./absent.pem'')"
    using readPem_error_iff [of toyEnv toyWorld "''./absent.pem''"] r2 by blast
  have c: "isl (readPem toyEnv toyWorld ''./junk.pem'')"
    using readPem_error_iff [of toyEnv toyWorld "''./junk.pem''"] r3 d3 by blast
  have a': "readPem toyEnv toyWorld ''./ca.pem'' = Inr ''ca''"
    using a by simp
  show ?thesis
    using r1 d1 a' r2 b r3 d3 c by blast
qed

text \<open>
  C4. In polling mode, when cycle \<open>k\<close> is the first to fail, every run with fuel for more
  than \<open>k\<close> iterations is the same run: \<open>k\<close> rounds of cycle and sleep, the failing
  cycle, the fatal log line, exit status 1. It holds \<open>k + 1\<close> cycles however much fuel
  is left, so no cycle starts after the failure.
\<close>

theorem polling_stops_at_first_failure:
  assumes "subject f \<noteq> []" and "k8sName f \<noteq> []"
    and "getConfig e w = Inr cfg" and "newForConfig e cfg = Inr cs"
    and "interval f \<noteq> []" and "parseDuration e (interval f) = Inr d" and "d \<noteq> 0"
    and ok: "\<forall>j<k. fst (sync e (theSyncer e f cs w) (cycleStart e (theSyncer e f cs w) d w j)) = None"
    and bad: "fst (sync e (theSyncer e f cs w) (cycleStart e (theSyncer e f cs w) d w k)) = Some err"
    and fuel: "k < fuel"
  shows "main e f fuel w =
           (Exited 1,
            startupEvents e f w
              @ [EvLog ''Monitoring every %v'' [ArgDuration d], EvLogSetFlags LstdFlags]
              @ concat (replicate k [EvSync (theId e f w), EvSleep d])
              @ [EvSync (theId e f w), EvLog ''Unable to sync certs: %v'' [ArgError err]],
            snd (sync e (theSyncer e f cs w) (cycleStart e (theSyncer e f cs w) d w k)))
         \<and> cyclesRun (fst (snd (main e f fuel w))) = Suc k"
proof -
  have pd: "(if interval f = [] then Inr 0 else parseDuration e (interval f)) = Inr d"
    using assms(5,6) by simp
  have run: "main e f fuel w =
           (Exited 1,
            startupEvents e f w
              @ [EvLog ''Monitoring every %v'' [ArgDuration d], EvLogSetFlags LstdFlags]
              @ concat (replicate k [EvSync (theId e f w), EvSleep d])
              @ [EvSync (theId e f w), EvLog ''Unable to sync certs: %v'' [ArgError err]],
            snd (sync e (theSyncer e f cs w) (cycleStart e (theSyncer e f cs w) d w k)))"
    using main_with_target [OF assms(1-4) pd, of fuel] assms(7)
      pollLoop_fails [OF ok bad fuel]
    by (simp add: sy_id_theSyncer)
  have cnt: "cyclesRun (fst (snd (main e f fuel w))) = Suc k"
    unfolding run
    by (simp add: cyclesRun_append cyclesRun_rounds cyclesRun_startupEvents cyclesRun_Cons
          cyclesRun_Nil)
  show ?thesis using run cnt by simp
qed

theorem polling_stops_at_first_failure_witness:
  "main toyEnv pollFlags 9 toyWorld =
     (Exited 1,
      startupEvents toyEnv pollFlags toyWorld @
        [EvLog ''Monitoring every %v'' [ArgDuration 3600000000000], EvLogSetFlags LstdFlags,
         EvSync \<lparr>name = ''web'', namespace = ''default''\<rparr>, EvSleep 3600000000000,
         EvSync \<lparr>name = ''web'', namespace = ''default''\<rparr>, EvSleep 3600000000000,
         EvSync \<lparr>name = ''web'', namespace = ''default''\<rparr>,
         EvLog ''Unable to sync certs: %v'' [ArgError (External ''store down'')]],
      toyWorld\<lparr>cycles := 3\<rparr>)
   \<and> cyclesRun (fst (snd (main toyEnv pollFlags 9 toyWorld))) = 3"
proof -
  have h1: "subject pollFlags \<noteq> []" and h2: "k8sName pollFlags \<noteq> []"
    and h5: "interval pollFlags \<noteq> []"
    by (simp_all add: pollFlags_simps)
  have h6: "parseDuration toyEnv (interval pollFlags) = Inr 3600000000000"
    by (simp add: pollFlags_simps toy_parseDuration)
  have h7: "(3600000000000 :: duration) \<noteq> 0" by simp
  have bad: "fst (sync toyEnv (theSyncer toyEnv pollFlags toyClientset toyWorld)
      (cycleStart toyEnv (theSyncer toyEnv pollFlags toyClientset toyWorld) 3600000000000
         toyWorld 2)) = Some (External ''store down'')"
    by (simp add: toy_sync toy_cycleStart toy_cycles)
  have fuel: "(2::nat) < 9" by simp
  note inst = polling_stops_at_first_failure
    [OF h1 h2 toy_getConfig toy_newForConfig h5 h6 h7 toy_cycles_ok bad fuel]
  have a: "main toyEnv pollFlags 9 toyWorld =
     (Exited 1,
      startupEvents toyEnv pollFlags toyWorld @
        [EvLog ''Monitoring every %v'' [ArgDuration 3600000000000], EvLogSetFlags LstdFlags,
         EvSync \<lparr>name = ''web'', namespace = ''default''\<rparr>, EvSleep 3600000000000,
         EvSync \<lparr>name = ''web'', namespace = ''default''\<rparr>, EvSleep 3600000000000,
         EvSync \<lparr>name = ''web'', namespace = ''default''\<rparr>,
         EvLog ''Unable to sync certs: %v'' [ArgError (External ''store down'')]],
      toyWorld\<lparr>cycles := 3\<rparr>)"
    using conjunct1 [OF inst]
    by (simp add: toy_sync toy_cycleStart toy_cycles toy_theId pollFlags_simps rounds_two)
  have b: "cyclesRun (fst (snd (main toyEnv pollFlags 9 toyWorld))) = 3"
    using conjunct2 [OF inst] by simp
  show ?thesis using a b by blast
qed



text \<open>
  C6. With a secret name and an empty interval option, a run that gets its client is one
  cycle: it returns when the cycle succeeds and exits with status 1 and the error of
  the cycle in the log when it fails, for every amount of fuel. And a run shows a mark
  of the polling loop only if the interval option is non-empty and parses to a
  duration other than zero.
\<close>

theorem one_shot_without_interval:
  "(subject f \<noteq> [] \<longrightarrow> k8sName f \<noteq> [] \<longrightarrow> interval f = [] \<longrightarrow>
    getConfig e w = Inr cfg \<longrightarrow> newForConfig e cfg = Inr cs \<longrightarrow>
      main e f fuel w =
        (case sync e (theSyncer e f cs w) w of
           (Some err, w1) \<Rightarrow>
             (Exited 1,
              startupEvents e f w @
                [EvSync (theId e f w), EvLog ''Unable to sync certs: %v'' [ArgError err]],
              w1)
         | (None, w1) \<Rightarrow> (Returned, startupEvents e f w @ [EvSync (theId e f w)], w1))
      \<and> cyclesRun (fst (snd (main e f fuel w))) = 1)
   \<and> (pollingSign (main e f fuel w) \<longrightarrow>
        interval f \<noteq> [] \<and> (\<exists>d. parseDuration e (interval f) = Inr d \<and> d \<noteq> 0))"
proof -
  have once: "main e f fuel w =
        (case sync e (theSyncer e f cs w) w of
           (Some err, w1) \<Rightarrow>
             (Exited 1,
              startupEvents e f w @
                [EvSync (theId e f w), EvLog ''Unable to sync certs: %v'' [ArgError err]],
              w1)
         | (None, w1) \<Rightarrow> (Returned, startupEvents e f w @ [EvSync (theId e f w)], w1))
      \<and> cyclesRun (fst (snd (main e f fuel w))) = 1"
    if h: "subject f \<noteq> []" "k8sName f \<noteq> []" "interval f = []"
      "getConfig e w = Inr cfg" "newForConfig e cfg = Inr cs"
  proof -
    have pd: "(if interval f = [] then Inr 0 else parseDuration e (interval f)) = Inr 0"
      using h(3) by simp
    have run: "main e f fuel w =
        (case sync e (theSyncer e f cs w) w of
           (Some err, w1) \<Rightarrow>
             (Exited 1,
              startupEvents e f w @
                [EvSync (theId e f w), EvLog ''Unable to sync certs: %v'' [ArgError err]],
              w1)
         | (None, w1) \<Rightarrow> (Returned, startupEvents e f w @ [EvSync (theId e f w)], w1))"
      using main_with_target [OF h(1,2,4,5) pd, of fuel] by simp
    have "cyclesRun (fst (snd (main e f fuel w))) = 1"
      unfolding run
      by (simp add: cyclesRun_append cyclesRun_startupEvents cyclesRun_Cons cyclesRun_Nil
            split: prod.splits option.splits)
    with run show ?thesis by simp
  qed
  show ?thesis
    using once main_polling_only [of e f fuel w] by blast
qed

theorem one_shot_without_interval_witness:
  "subject syncFlags \<noteq> [] \<and> k8sName syncFlags \<noteq> [] \<and> interval syncFlags = []
   \<and> main toyEnv syncFlags 7 toyWorld =
       (Returned,
        [EvLogSetFlags 0, EvGetConfig, EvNewForConfig, EvReadFile namespaceFile,
         EvLog (''Unable to read %s, using namespace '' @ [CHR 0x27] @ ''default'' @ [CHR 0x27])
           [ArgString namespaceFile],
         EvLog ''Syncing certificate for %s to secret %s in namespace %s''
           [ArgString ''svc.example.com'', ArgString ''web'', ArgString ''default''],
         EvSync \<lparr>name = ''web'', namespace = ''default''\<rparr>],
        toyWorld\<lparr>cycles := 1\<rparr>)
   \<and> cyclesRun (fst (snd (main toyEnv syncFlags 7 toyWorld))) = 1
   \<and> pollingSign (main toyEnv pollFlags 1 toyWorld)
   \<and> interval pollFlags \<noteq> []
   \<and> (\<exists>d. parseDuration toyEnv (interval pollFlags) = Inr d \<and> d \<noteq> 0)"
proof -
  have h1: "subject syncFlags \<noteq> []" and h2: "k8sName syncFlags \<noteq> []"
    and h3: "interval syncFlags = []"
    by (simp_all add: syncFlags_simps)
  note inst = one_shot_without_interval [of syncFlags toyEnv toyWorld "RestConfig ''in-cluster''"
      toyClientset 7]
  have raw: "main toyEnv syncFlags 7 toyWorld =
        (case sync toyEnv (theSyncer toyEnv syncFlags toyClientset toyWorld) toyWorld of
           (Some err, w1) \<Rightarrow>
             (Exited 1,
              startupEvents toyEnv syncFlags toyWorld @
                [EvSync (theId toyEnv syncFlags toyWorld),
                 EvLog ''Unable to sync certs: %v'' [ArgError err]],
              w1)
         | (None, w1) \<Rightarrow>
             (Returned,
              startupEvents toyEnv syncFlags toyWorld @ [EvSync (theId toyEnv syncFlags toyWorld)],
              w1))
      \<and> cyclesRun (fst (snd (main toyEnv syncFlags 7 toyWorld))) = 1"
    using inst h1 h2 h3 toy_getConfig [of toyWorld] toy_newForConfig by blast
  have a: "main toyEnv syncFlags 7 toyWorld =
       (Returned,
        [EvLogSetFlags 0, EvGetConfig, EvNewForConfig, EvReadFile namespaceFile,
         EvLog (''Unable to read %s, using namespace '' @ [CHR 0x27] @ ''default'' @ [CHR 0x27])
           [ArgString namespaceFile],
         EvLog ''Syncing certificate for %s to secret %s in namespace %s''
           [ArgString ''svc.example.com'', ArgString ''web'', ArgString ''default''],
         EvSync \<lparr>name = ''web'', namespace = ''default''\<rparr>],
        toyWorld\<lparr>cycles := 1\<rparr>)"
    using conjunct1 [OF raw]
    by (simp add: toy_sync toy_startupEvents toy_theId syncFlags_simps toy_cycles)
  have c: "cyclesRun (fst (snd (main toyEnv syncFlags 7 toyWorld))) = 1"
    by (rule conjunct2 [OF raw])
  have p: "pollingSign (main toyEnv pollFlags 1 toyWorld)"
    by (simp add: toy_polling toy_sync toy_cycles pollingSign_def)
  have b: "interval pollFlags \<noteq> [] \<and> (\<exists>d. parseDuration toyEnv (interval pollFlags) = Inr d \<and> d \<noteq> 0)"
    using one_shot_without_interval [of pollFlags toyEnv toyWorld cfg cs 1] p by blast
  show ?thesis
    using h1 h2 h3 a c p b by blast
qed


text \<open>
  C8. With an empty subject the run is the fatal log line and exit status 1: nothing is
  read, generated or sent to the store, and the world is unchanged.
\<close>

theorem missing_subject_is_fatal:
  "subject f = [] \<Longrightarrow>
   main e f fuel w =
     (Exited 1, [EvLogSetFlags 0, EvLog ''Missing required -subject parameter'' []], w)"
  by (simp add: main_def Fatalf_def)

theorem missing_subject_is_fatal_witness:
  "subject (toyFlags\<lparr>subject := []\<rparr>) = []
   \<and> main toyEnv (toyFlags\<lparr>subject := []\<rparr>) 3 toyWorld =
       (Exited 1, [EvLogSetFlags 0, EvLog ''Missing required -subject parameter'' []], toyWorld)"
proof -
  have h: "subject (toyFlags\<lparr>subject := []\<rparr>) = []" by simp
  show ?thesis
    using h missing_subject_is_fatal [OF h, of toyEnv 3 toyWorld] by blast
qed

text \<open>
  C9. A non-empty namespace option is the namespace. With an empty option, the
  contents of the service-account namespace file are the namespace when the file can
  be read and is not empty, and the namespace is \<open>default\<close> when the file cannot be
  read or is empty.
\<close>

theorem namespace_resolution:
  "(ns0 \<noteq> [] \<longrightarrow> snd (resolveNamespace e w ns0) = ns0)
   \<and> (ns0 = [] \<longrightarrow>
        (\<forall>bs. readFile e w namespaceFile = Inr bs \<longrightarrow> bs \<noteq> [] \<longrightarrow>
              snd (resolveNamespace e w ns0) = bs)
        \<and> (isl (readFile e w namespaceFile) \<or> readFile e w namespaceFile = Inr [] \<longrightarrow>
              snd (resolveNamespace e w ns0) = ''default''))"
  by (auto simp: resolveNamespace_def split: sum.splits)

theorem namespace_resolution_witness:
  "''prod'' \<noteq> [] \<and> snd (resolveNamespace toyEnv toyWorld ''prod'') = ''prod''
   \<and> readFile toyEnv clusterWorld namespaceFile = Inr ''team-a'' \<and> ''team-a'' \<noteq> []
   \<and> snd (resolveNamespace toyEnv clusterWorld []) = ''team-a''
   \<and> isl (readFile toyEnv toyWorld namespaceFile)
   \<and> snd (resolveNamespace toyEnv toyWorld []) = ''default''"
proof -
  have r1: "readFile toyEnv clusterWorld namespaceFile = Inr ''team-a''"
    by (simp add: toyEnv_def toyReadFile_def clusterWorld_def)
  have r2: "isl (readFile toyEnv toyWorld namespaceFile)"
    by (simp add: toyEnv_def toyReadFile_def toyWorld_def namespaceFile_def)
  have n1: "''prod'' \<noteq> []" and n2: "''team-a'' \<noteq> []" by simp_all
  have a: "snd (resolveNamespace toyEnv toyWorld ''prod'') = ''prod''"
    using namespace_resolution [of "''prod''" toyEnv toyWorld] n1 by blast
  have b: "snd (resolveNamespace toyEnv clusterWorld []) = ''team-a''"
    using namespace_resolution [of "[]" toyEnv clusterWorld] r1 n2 by blast
  have c: "snd (resolveNamespace toyEnv toyWorld []) = ''default''"
    using namespace_resolution [of "[]" toyEnv toyWorld] r2 by blast
  show ?thesis
    using n1 a r1 n2 b r2 c by blast
qed

text \<open>
  C10. An empty DNS or IP option gives the empty list, not a list holding one empty
  name. A non-empty option is cut at its commas and nowhere else: joining the entries
  with commas gives the option back byte for byte (so nothing is trimmed and no entry
  is dropped), no entry holds a comma, and there is one entry more than there are
  commas; \<open>a,,b\<close> gives three entries, the middle one empty.
\<close>

theorem sanStrings_split:
  "sanStrings [] = []
   \<and> (s \<noteq> [] \<longrightarrow>
        sanStrings s = Split s (CHR '','')
        \<and> Join (sanStrings s) (CHR '','') = s
        \<and> (\<forall>x \<in> set (sanStrings s). CHR '','' \<notin> set x)
        \<and> length (sanStrings s) = Suc (count_list s (CHR '','')))
   \<and> sanStrings ''a,,b'' = [''a'', [], ''b'']
   \<and> sanStrings '' a, b '' = ['' a'', '' b '']"
proof -
  have e: "sanStrings [] = []"
    by (simp add: sanStrings_def)
  have n: "sanStrings s = Split s (CHR '','')" if "s \<noteq> []"
    using that by (simp add: sanStrings_def)
  have x1: "sanStrings ''a,,b'' = [''a'', [], ''b'']"
    by (simp add: sanStrings_def)
  have x2: "sanStrings '' a, b '' = ['' a'', '' b '']"
    by (simp add: sanStrings_def)
  show ?thesis
    using e n x1 x2 Join_Split [of s "CHR '',''"] length_Split [of s "CHR '',''"]
      Split_no_sep [of _ s "CHR '',''"]
    by auto
qed

theorem sanStrings_split_witness:
  "''x.io,y.io'' \<noteq> []
   \<and> sanStrings ''x.io,y.io'' = [''x.io'', ''y.io'']
   \<and> Join (sanStrings ''x.io,y.io'') (CHR '','') = ''x.io,y.io''
   \<and> CHR '','' \<notin> set (concat (sanStrings ''x.io,y.io''))
   \<and> length (sanStrings ''x.io,y.io'') = 2"
proof -
  have ne: "''x.io,y.io'' \<noteq> []" by simp
  have sp: "Split ''x.io,y.io'' (CHR '','') = [''x.io'', ''y.io'']" by simp
  have inst: "sanStrings ''x.io,y.io'' = Split ''x.io,y.io'' (CHR '','')
      \<and> Join (sanStrings ''x.io,y.io'') (CHR '','') = ''x.io,y.io''
      \<and> (\<forall>x \<in> set (sanStrings ''x.io,y.io''). CHR '','' \<notin> set x)
      \<and> length (sanStrings ''x.io,y.io'') = Suc (count_list ''x.io,y.io'' (CHR '',''))"
    using sanStrings_split [of "''x.io,y.io''"] ne by blast
  have a: "sanStrings ''x.io,y.io'' = [''x.io'', ''y.io'']"
    using inst sp by simp
  have b: "Join (sanStrings ''x.io,y.io'') (CHR '','') = ''x.io,y.io''"
    using inst by blast
  have c: "CHR '','' \<notin> set (concat (sanStrings ''x.io,y.io''))"
    using inst by auto
  have d: "length (sanStrings ''x.io,y.io'') = 2"
    using inst by simp
  show ?thesis
    using ne a b c d by blast
qed

end
